theory Spec2Isabelle
  imports Main "HOL-Library.Char_ord"
begin

section \<open>Parssir: a tokenizer and a Pratt parser for infix expressions\<close>

text \<open>
  A shallow embedding of \<^verbatim>\<open>parssir.py\<close>. A Python \<^verbatim>\<open>str\<close> is modelled as a
  \<open>string\<close> whose characters are code points below 256, one \<open>char\<close> each; in that
  range the regular-expression class \<^verbatim>\<open>\d\<close> is exactly \<^verbatim>\<open>0\<close> to \<^verbatim>\<open>9\<close>.
  An exception raised by the Python code is the \<open>Inl\<close> value of a sum type.
\<close>

subsection \<open>Tokens, expressions and errors\<close>

definition OPERATORS :: "string set" where
  "OPERATORS = {''+'', ''-'', ''*'', ''/'', ''%'', ''**'', ''//'', ''and'', ''or'', ''not'',
     ''=='', ''!='', ''<'', ''>'', ''<='', ''>='', ''('', '')''}"

datatype TokenType = ATOM | OP | EOF

text \<open>The dataclass \<^verbatim>\<open>Token\<close> with its fields \<^verbatim>\<open>type\<close> and \<^verbatim>\<open>value\<close>.\<close>

record Token =
  token_type :: TokenType
  token_value :: string

text \<open>
  \<^verbatim>\<open>Expression.Atom\<close> holds its token; \<^verbatim>\<open>Expression.Operation\<close> holds the
  operator token and the list \<^verbatim>\<open>operands\<close>, whose elements may be \<^verbatim>\<open>None\<close>.
\<close>

datatype Expression = Atom Token | Operation Token "Expression option list"

datatype error = SyntaxError string | KeyError string | IndexError string

subsection \<open>The lexer\<close>

text \<open>The character classes \<^verbatim>\<open>\d\<close>, \<^verbatim>\<open>[a-zA-Z_]\<close> and \<^verbatim>\<open>[+*/()-,]\<close>. Inside the
  last class, \<^verbatim>\<open>)-,\<close> is a range from \<^verbatim>\<open>)\<close> to \<^verbatim>\<open>,\<close>.\<close>

definition is_digit :: "char \<Rightarrow> bool" where
  "is_digit c = (CHR ''0'' \<le> c \<and> c \<le> CHR ''9'')"

definition is_letter :: "char \<Rightarrow> bool" where
  "is_letter c = ((CHR ''a'' \<le> c \<and> c \<le> CHR ''z'') \<or> (CHR ''A'' \<le> c \<and> c \<le> CHR ''Z'')
     \<or> c = CHR ''_'')"

definition is_punct :: "char \<Rightarrow> bool" where
  "is_punct c = (c = CHR ''+'' \<or> c = CHR ''*'' \<or> c = CHR ''/'' \<or> c = CHR ''(''
     \<or> (CHR '')'' \<le> c \<and> c \<le> CHR '',''))"

text \<open>
  \<^verbatim>\<open>re.findall(r'\d+|[a-zA-Z_]+|[+*/()-,]', expression)\<close>: scanning from the left, a
  maximal run of digits, else a maximal run of letters and underscores, else one
  character of the punctuation class; any other character is skipped.
\<close>

function findall :: "string \<Rightarrow> string list" where
  "findall [] = []"
| "findall (c # cs) =
     (if is_digit c then (c # takeWhile is_digit cs) # findall (dropWhile is_digit cs)
      else if is_letter c then (c # takeWhile is_letter cs) # findall (dropWhile is_letter cs)
      else if is_punct c then [c] # findall cs
      else findall cs)"
  by pat_completeness auto
termination
  by (relation "measure length") (auto simp: length_dropWhile_le less_Suc_eq_le)

text \<open>\<^verbatim>\<open>re.fullmatch(r'\d+|[a-zA-Z_][a-zA-Z0-9_]*', token)\<close> as a truth value.\<close>

definition fullmatch :: "string \<Rightarrow> bool" where
  "fullmatch token =
     (case token of
        [] \<Rightarrow> False
      | c # cs \<Rightarrow> (is_digit c \<and> list_all is_digit cs)
           \<or> (is_letter c \<and> list_all (\<lambda>d. is_letter d \<or> is_digit d) cs))"

definition is_atom :: "string \<Rightarrow> bool" where
  "is_atom token = (fullmatch token \<and> token \<notin> OPERATORS)"

definition is_operator :: "string \<Rightarrow> bool" where
  "is_operator token = (token \<in> OPERATORS)"

text \<open>The body of the \<^verbatim>\<open>for\<close> loop of \<^verbatim>\<open>lexicalize\<close>: the token made from one lexeme.\<close>

definition classify :: "string \<Rightarrow> Token" where
  "classify lexeme =
     (if is_atom lexeme then \<lparr>token_type = ATOM, token_value = lexeme\<rparr>
      else if is_operator lexeme then \<lparr>token_type = OP, token_value = lexeme\<rparr>
      else \<lparr>token_type = EOF, token_value = lexeme\<rparr>)"

text \<open>
  \<^verbatim>\<open>lexicalize\<close> stores the reversed token list in \<^verbatim>\<open>self.tokens\<close>; the model returns
  that list. The next token to read is its last element.
\<close>

definition lexicalize :: "string \<Rightarrow> Token list" where
  "lexicalize expression =
     rev (map classify (findall expression) @ [\<lparr>token_type = EOF, token_value = ''EOF''\<rparr>])"

definition Lexer :: "string \<Rightarrow> Token list" where
  "Lexer expression = lexicalize expression"

text \<open>\<^verbatim>\<open>next\<close> is \<^verbatim>\<open>self.tokens.pop()\<close> and \<^verbatim>\<open>peek\<close> is \<^verbatim>\<open>self.tokens[-1]\<close>; both raise
  \<^verbatim>\<open>IndexError\<close> on the empty list.\<close>

definition lexer_next :: "Token list \<Rightarrow> error + (Token \<times> Token list)" where
  "lexer_next tokens =
     (if tokens = [] then Inl (IndexError ''pop from empty list'')
      else Inr (last tokens, butlast tokens))"

definition lexer_peek :: "Token list \<Rightarrow> error + Token" where
  "lexer_peek tokens =
     (if tokens = [] then Inl (IndexError ''list index out of range'')
      else Inr (last tokens))"

subsection \<open>The parser\<close>

definition Parser :: "string \<Rightarrow> Token list" where
  "Parser expression = Lexer expression"

definition table :: "string \<rightharpoonup> int \<times> int" where
  "table = [''+'' \<mapsto> (10, 11), ''-'' \<mapsto> (10, 11), ''*'' \<mapsto> (20, 21), ''/'' \<mapsto> (20, 21)]"

definition infix_binding_power :: "Token \<Rightarrow> error + (int \<times> int)" where
  "infix_binding_power op =
     (case table (token_value op) of
        None \<Rightarrow> Inl (KeyError (token_value op))
      | Some bp \<Rightarrow> Inr bp)"

text \<open>
  \<^verbatim>\<open>parse_expression\<close> reads the shared token list and leaves it changed, so the model
  takes the list and returns the result with the list that is left. \<open>parse_loop\<close> is
  the \<^verbatim>\<open>while True\<close> loop of \<^verbatim>\<open>parse_expression\<close>, with the local \<^verbatim>\<open>lhs\<close> as its
  second argument.
\<close>

function parse_expression :: "int \<Rightarrow> Token list \<Rightarrow> error + (Expression option \<times> Token list)"
  and parse_loop :: "int \<Rightarrow> Expression option \<Rightarrow> Token list
    \<Rightarrow> error + (Expression option \<times> Token list)" where
  "parse_expression min_bp tokens =
     (case lexer_next tokens of
        Inl e \<Rightarrow> Inl e
      | Inr (token, tokens1) \<Rightarrow>
          (case token_type token of
             ATOM \<Rightarrow> parse_loop min_bp (Some (Atom token)) tokens1
           | OP \<Rightarrow> Inl (SyntaxError ''Operation cannot be the first symbol in an expression'')
           | EOF \<Rightarrow> Inr (None, tokens1)))"
| "parse_loop min_bp lhs tokens =
     (case lexer_peek tokens of
        Inl e \<Rightarrow> Inl e
      | Inr next_token \<Rightarrow>
          if token_type next_token = EOF then Inr (lhs, tokens)
          else
            (case token_type next_token of
               ATOM \<Rightarrow> Inl (SyntaxError ''Expect an operation, not an atom'')
             | EOF \<Rightarrow> Inr (lhs, tokens)
             | OP \<Rightarrow>
                 (case infix_binding_power next_token of
                    Inl e \<Rightarrow> Inl e
                  | Inr (l_bp, r_bp) \<Rightarrow>
                      if l_bp < min_bp then Inr (lhs, tokens)
                      else
                        (case lexer_next tokens of
                           Inl e \<Rightarrow> Inl e
                         | Inr (consumed, tokens1) \<Rightarrow>
                             (case parse_expression r_bp tokens1 of
                                Inl e \<Rightarrow> Inl e
                              | Inr (rhs, tokens2) \<Rightarrow>
                                  parse_loop min_bp
                                    (Some (Operation next_token [lhs, rhs])) tokens2)))))"
  by pat_completeness auto

subsection \<open>Blank input\<close>

text \<open>
  The whitespace characters below code point 256, those for which Python's
  \<^verbatim>\<open>str.isspace\<close> holds: tab, line feed, vertical tab, form feed, carriage return,
  the four separators \<^verbatim>\<open>\x1c\<close> to \<^verbatim>\<open>\x1f\<close>, space, \<^verbatim>\<open>\x85\<close> and \<^verbatim>\<open>\xa0\<close>.
\<close>

definition whitespace :: "char set" where
  "whitespace = {CHR 0x09, CHR 0x0A, CHR 0x0B, CHR 0x0C, CHR 0x0D, CHR 0x1C, CHR 0x1D,
     CHR 0x1E, CHR 0x1F, CHR '' '', CHR 0x85, CHR 0xA0}"

subsection \<open>Well-formed prefixes of an input\<close>

text \<open>
  An alternation of operators that the binding-power table knows and of atoms: what may
  stand between the first atom of an input and an operator in infix position.
\<close>

fun infix_chain :: "Token list \<Rightarrow> bool" where
  "infix_chain [] = True"
| "infix_chain [t] = False"
| "infix_chain (op # a # ts) =
     (token_type op = OP \<and> token_value op \<in> dom table \<and> token_type a = ATOM \<and> infix_chain ts)"

subsection \<open>Termination of the parser\<close>

text \<open>
  The recursive call inside the loop is nested: the loop goes on with the token list
  that the call leaves. Every successful \<open>next\<close> shortens the list, hence every
  successful \<open>parse_expression\<close> does, and the recursion is well-founded on the number
  of tokens left.
\<close>

lemma lexer_next_length:
  "lexer_next tokens = Inr (token, tokens1) \<Longrightarrow> length tokens1 < length tokens"
  by (auto simp: lexer_next_def split: if_splits)

lemma parse_length:
  "parse_expression_parse_loop_dom (Inl (min_bp, tokens)) \<Longrightarrow>
     parse_expression min_bp tokens = Inr (r, rest) \<Longrightarrow> length rest < length tokens"
  "parse_expression_parse_loop_dom (Inr (min_bp, lhs, tokens)) \<Longrightarrow>
     parse_loop min_bp lhs tokens = Inr (r, rest) \<Longrightarrow> length rest \<le> length tokens"
proof (induction min_bp tokens and min_bp lhs tokens arbitrary: r rest and r rest
    rule: parse_expression_parse_loop.pinduct)
  case (1 min_bp tokens)
  from "1.prems" "1.hyps" obtain token tokens1 where
    nx: "lexer_next tokens = Inr (token, tokens1)"
    by (auto simp: parse_expression.psimps split: sum.splits)
  have len: "length tokens1 < length tokens"
    using nx by (rule lexer_next_length)
  show ?case
  proof (cases "token_type token")
    case ATOM
    with "1.prems" "1.hyps" nx
    have "parse_loop min_bp (Some (Atom token)) tokens1 = Inr (r, rest)"
      by (simp add: parse_expression.psimps)
    with "1.IH" [OF nx refl ATOM] have "length rest \<le> length tokens1" by blast
    with len show ?thesis by simp
  next
    case OP
    with "1.prems" "1.hyps" nx show ?thesis
      by (simp add: parse_expression.psimps)
  next
    case EOF
    with "1.prems" "1.hyps" nx len show ?thesis
      by (simp add: parse_expression.psimps)
  qed
next
  case (2 min_bp lhs tokens)
  note eq = "2.prems" [unfolded parse_loop.psimps [OF "2.hyps"]]
  from eq obtain next_token where pk: "lexer_peek tokens = Inr next_token"
    by (auto split: sum.splits)
  show ?case
  proof (cases "token_type next_token = OP")
    case False
    with eq pk show ?thesis
      by (cases "token_type next_token") (auto split: if_splits)
  next
    case isop: True
    then have ne: "token_type next_token \<noteq> EOF" by simp
    from eq pk isop obtain l_bp r_bp where
      bp: "infix_binding_power next_token = Inr (l_bp, r_bp)"
      by (auto split: sum.splits)
    show ?thesis
    proof (cases "l_bp < min_bp")
      case True
      with eq pk isop bp show ?thesis by simp
    next
      case False
      with eq pk isop bp obtain consumed tokens1 where
        nx: "lexer_next tokens = Inr (consumed, tokens1)"
        by (auto split: sum.splits)
      with eq pk isop bp False obtain rhs tokens2 where
        rec: "parse_expression r_bp tokens1 = Inr (rhs, tokens2)"
        by (auto split: sum.splits)
      have l1: "length tokens1 < length tokens"
        using nx by (rule lexer_next_length)
      have l2: "length tokens2 < length tokens1"
        using "2.IH"(1) [OF pk ne isop bp refl False nx refl rec] .
      from eq pk isop bp False nx rec
      have "parse_loop min_bp (Some (Operation next_token [lhs, rhs])) tokens2 = Inr (r, rest)"
        by simp
      then have "length rest \<le> length tokens2"
        using "2.IH"(2) [OF pk ne isop bp refl False nx refl rec refl]
        by blast
      with l1 l2 show ?thesis by simp
    qed
  qed
qed

lemma parse_after_next:
  "lexer_next tokens = Inr (consumed, tokens1) \<Longrightarrow>
   parse_expression_parse_loop_dom (Inl (r_bp, tokens1)) \<Longrightarrow>
   parse_expression r_bp tokens1 = Inr (rhs, tokens2) \<Longrightarrow> length tokens2 < length tokens"
  using lexer_next_length parse_length(1) less_trans by blast

lemma parse_dom_total: "All parse_expression_parse_loop_dom"
proof (relation "measure (\<lambda>x. case x of Inl (min_bp, tokens) \<Rightarrow> length tokens
                              | Inr (min_bp, lhs, tokens) \<Rightarrow> length tokens)")
  show "wf (measure (\<lambda>x. case x of Inl (min_bp, tokens) \<Rightarrow> length tokens
                              | Inr (min_bp, lhs, tokens) \<Rightarrow> length tokens))"
    by simp
qed (auto dest: lexer_next_length parse_after_next)

termination parse_expression
  by (rule parse_dom_total)

declare parse_expression.simps [simp del] parse_loop.simps [simp del]

section \<open>Properties\<close>

lemmas lexer_defs = Parser_def Lexer_def lexicalize_def classify_def is_atom_def is_operator_def
  fullmatch_def OPERATORS_def is_digit_def is_letter_def is_punct_def

lemmas parser_defs = lexer_next_def lexer_peek_def infix_binding_power_def table_def
  parse_expression.simps parse_loop.simps

subsection \<open>The lexer\<close>

text \<open>The range \<^verbatim>\<open>)-,\<close> holds the four characters \<^verbatim>\<open>)\<close>, \<^verbatim>\<open>*\<close>, \<^verbatim>\<open>+\<close> and \<^verbatim>\<open>,\<close>, so
  the punctuation class is \<^verbatim>\<open>+ * / ( ) ,\<close> and has no \<^verbatim>\<open>-\<close>.\<close>

lemma punct_range:
  "(CHR '')'' \<le> c \<and> c \<le> CHR '','')
     = (c = CHR '')'' \<or> c = CHR ''*'' \<or> c = CHR ''+'' \<or> c = CHR '','')"
proof
  assume "CHR '')'' \<le> c \<and> c \<le> CHR '',''"
  then have "41 \<le> (of_char c :: nat) \<and> (of_char c :: nat) \<le> 44"
    by (simp add: less_eq_char_def)
  then have "(of_char c :: nat) = 41 \<or> (of_char c :: nat) = 42 \<or> (of_char c :: nat) = 43
     \<or> (of_char c :: nat) = 44"
    by arith
  then have "(of_char c :: nat) = of_char (CHR '')'') \<or> (of_char c :: nat) = of_char (CHR ''*'')
     \<or> (of_char c :: nat) = of_char (CHR ''+'') \<or> (of_char c :: nat) = of_char (CHR '','')"
    by simp
  then show "c = CHR '')'' \<or> c = CHR ''*'' \<or> c = CHR ''+'' \<or> c = CHR '',''"
    by (simp only: of_char_eq_iff)
next
  assume "c = CHR '')'' \<or> c = CHR ''*'' \<or> c = CHR ''+'' \<or> c = CHR '',''"
  then show "CHR '')'' \<le> c \<and> c \<le> CHR '',''" by auto
qed

lemma is_punct_iff:
  "is_punct c = (c = CHR ''+'' \<or> c = CHR ''*'' \<or> c = CHR ''/'' \<or> c = CHR ''(''
     \<or> c = CHR '')'' \<or> c = CHR '','')"
  unfolding is_punct_def punct_range by auto

lemma minus_not_punct: "\<not> is_punct (CHR ''-'')"
  by (simp add: is_punct_iff)












lemma findall_no_match:
  "list_all (\<lambda>c. \<not> is_digit c \<and> \<not> is_letter c \<and> \<not> is_punct c) s \<Longrightarrow> findall s = []"
  by (induction s) simp_all

lemma whitespace_no_match:
  "c \<in> whitespace \<Longrightarrow> \<not> is_digit c \<and> \<not> is_letter c \<and> \<not> is_punct c"
  by (auto simp: whitespace_def is_digit_def is_letter_def is_punct_def)

text \<open>
  Claim C4, on the input \<^verbatim>\<open>1 - 2\<close>: the operator \<^verbatim>\<open>-\<close> of the vocabulary is not
  extracted. The character is outside the punctuation class, so \<open>findall\<close> skips it
  and the token sequence (in reading order) is the two atoms and the end marker, with
  no operator token.
\<close>

theorem minus_not_tokenized:
  "rev (lexicalize ''1 - 2'') =
     [\<lparr>token_type = ATOM, token_value = ''1''\<rparr>,
      \<lparr>token_type = ATOM, token_value = ''2''\<rparr>,
      \<lparr>token_type = EOF, token_value = ''EOF''\<rparr>]"
  by (simp add: lexer_defs)

text \<open>
  Claim C6, on the input \<^verbatim>\<open>x1\<close>: \<open>is_atom\<close> accepts the string as one identifier,
  yet the scanner's letter run stops at the digit and the lexer returns two atoms,
  \<^verbatim>\<open>x\<close> and \<^verbatim>\<open>1\<close>.
\<close>

theorem identifier_with_digit_split:
  "is_atom ''x1'' \<and> rev (lexicalize ''x1'') =
     [\<lparr>token_type = ATOM, token_value = ''x''\<rparr>,
      \<lparr>token_type = ATOM, token_value = ''1''\<rparr>,
      \<lparr>token_type = EOF, token_value = ''EOF''\<rparr>]"
  by (simp add: lexer_defs)



subsection \<open>The parser on examples\<close>


text \<open>
  Claim C3, on the input \<^verbatim>\<open>1 - 2 - 3\<close>: the lexer drops both \<^verbatim>\<open>-\<close>, the parser
  reads three adjacent atoms and raises \<^verbatim>\<open>SyntaxError\<close> instead of returning the
  left-folded tree.
\<close>

theorem left_assoc_minus_fails:
  "rev (Parser ''1 - 2 - 3'') =
     [\<lparr>token_type = ATOM, token_value = ''1''\<rparr>,
      \<lparr>token_type = ATOM, token_value = ''2''\<rparr>,
      \<lparr>token_type = ATOM, token_value = ''3''\<rparr>,
      \<lparr>token_type = EOF, token_value = ''EOF''\<rparr>]
   \<and> parse_expression 0 (Parser ''1 - 2 - 3'')
       = Inl (SyntaxError ''Expect an operation, not an atom'')"
  by (simp add: lexer_defs parser_defs)

text \<open>The parser itself folds to the left when it is given the tokens of
  \<^verbatim>\<open>1 - 2 - 3\<close>: the defect is in the lexer.\<close>

lemma left_assoc_on_tokens:
  "parse_expression 0 (rev
     [\<lparr>token_type = ATOM, token_value = ''1''\<rparr>,
      \<lparr>token_type = OP, token_value = ''-''\<rparr>,
      \<lparr>token_type = ATOM, token_value = ''2''\<rparr>,
      \<lparr>token_type = OP, token_value = ''-''\<rparr>,
      \<lparr>token_type = ATOM, token_value = ''3''\<rparr>,
      \<lparr>token_type = EOF, token_value = ''EOF''\<rparr>]) =
     Inr (Some (Operation \<lparr>token_type = OP, token_value = ''-''\<rparr>
            [Some (Operation \<lparr>token_type = OP, token_value = ''-''\<rparr>
               [Some (Atom \<lparr>token_type = ATOM, token_value = ''1''\<rparr>),
                Some (Atom \<lparr>token_type = ATOM, token_value = ''2''\<rparr>)]),
             Some (Atom \<lparr>token_type = ATOM, token_value = ''3''\<rparr>)]),
          [\<lparr>token_type = EOF, token_value = ''EOF''\<rparr>])"
  by (simp add: parser_defs)

text \<open>
  Claim C5, on the input \<^verbatim>\<open>1 +\<close>: the recursive call reads the end marker and
  returns \<^verbatim>\<open>None\<close>, the loop folds it into an \<^verbatim>\<open>Operation\<close> and peeks at the
  empty list: the parse ends with \<^verbatim>\<open>IndexError\<close>, not with a missing-operand error.
\<close>

theorem dangling_operator_IndexError:
  "parse_expression 0 (Parser ''1 +'') = Inl (IndexError ''list index out of range'')"
  by (simp add: lexer_defs parser_defs)

text \<open>With a comma after the operator the same fold is returned as a result: the
  right operand of the tree is \<^verbatim>\<open>None\<close>.\<close>

lemma dangling_operator_before_comma:
  "parse_expression 0 (Parser ''1 + ,'') =
     Inr (Some (Operation \<lparr>token_type = OP, token_value = ''+''\<rparr>
            [Some (Atom \<lparr>token_type = ATOM, token_value = ''1''\<rparr>), None]),
          [\<lparr>token_type = EOF, token_value = ''EOF''\<rparr>])"
  by (simp add: lexer_defs parser_defs)

subsection \<open>The parser in general\<close>

text \<open>
  Claim C7: for every input made of whitespace only (the empty input too), the parse
  with minimum binding power 0 returns \<^verbatim>\<open>None\<close>, with no error; it has read the
  end marker.
\<close>

theorem blank_input_empty_result:
  "set s \<subseteq> whitespace \<Longrightarrow> parse_expression 0 (Parser s) = Inr (None, [])"
proof -
  assume "set s \<subseteq> whitespace"
  then have "list_all (\<lambda>c. \<not> is_digit c \<and> \<not> is_letter c \<and> \<not> is_punct c) s"
    using whitespace_no_match by (auto simp: list_all_iff)
  then have "findall s = []" by (rule findall_no_match)
  then show ?thesis
    by (simp add: Parser_def Lexer_def lexicalize_def parser_defs)
qed

text \<open>Claim C7 at the input of a space, a tab and a line feed.\<close>

theorem blank_input_empty_result_witness:
  "set [CHR '' '', CHR 0x09, CHR 0x0A] \<subseteq> whitespace
   \<and> parse_expression 0 (Parser [CHR '' '', CHR 0x09, CHR 0x0A]) = Inr (None, [])"
  using blank_input_empty_result [of "[CHR '' '', CHR 0x09, CHR 0x0A]"]
  by (simp add: whitespace_def)

text \<open>
  Claim C8: when the first token read is an operator, \<open>parse_expression\<close> raises
  \<^verbatim>\<open>SyntaxError\<close> at once, for every minimum binding power and whatever follows; no
  tree is returned.
\<close>

theorem leading_operator_fails:
  "parse_expression min_bp (rev (\<lparr>token_type = OP, token_value = v\<rparr> # rest))
     = Inl (SyntaxError ''Operation cannot be the first symbol in an expression'')"
  by (simp add: parse_expression.simps lexer_next_def)

text \<open>The steps of the loop on a token list written in reading order.\<close>

lemma parse_expression_atom:
  "token_type a = ATOM \<Longrightarrow>
   parse_expression min_bp (rev (a # ts)) = parse_loop min_bp (Some (Atom a)) (rev ts)"
  by (simp add: parse_expression.simps lexer_next_def)

lemma loop_unsupported:
  "token_type bad = OP \<Longrightarrow> token_value bad \<notin> dom table \<Longrightarrow>
   parse_loop min_bp lhs (rev (bad # ts)) = Inl (KeyError (token_value bad))"
proof -
  assume op: "token_type bad = OP" and "token_value bad \<notin> dom table"
  then have none: "table (token_value bad) = None" by blast
  show ?thesis
    by (simp add: parse_loop.simps lexer_peek_def infix_binding_power_def op none)
qed

lemma loop_stop:
  "token_type op = OP \<Longrightarrow> table (token_value op) = Some (l, r) \<Longrightarrow> l < min_bp \<Longrightarrow>
   parse_loop min_bp lhs (rev (op # ts)) = Inr (lhs, rev (op # ts))"
  by (simp add: parse_loop.simps lexer_peek_def infix_binding_power_def)

lemma loop_step:
  "token_type op = OP \<Longrightarrow> table (token_value op) = Some (l, r) \<Longrightarrow> \<not> l < min_bp \<Longrightarrow>
   parse_loop min_bp lhs (rev (op # ts)) =
     (case parse_expression r (rev ts) of
        Inl e \<Rightarrow> Inl e
      | Inr (rhs, ts2) \<Rightarrow> parse_loop min_bp (Some (Operation op [lhs, rhs])) ts2)"
  by (simp add: parse_loop.simps [of min_bp lhs] lexer_peek_def lexer_next_def
      infix_binding_power_def)

lemma table_left_bp: "table v = Some (l, r) \<Longrightarrow> 10 \<le> l"
  by (auto simp: table_def split: if_splits)

lemma chain_loop:
  assumes bad: "token_type bad = OP" "token_value bad \<notin> dom table"
  shows "infix_chain chain \<Longrightarrow>
     parse_loop min_bp lhs (rev (chain @ bad # rest)) = Inl (KeyError (token_value bad))
     \<or> (\<exists>lhs' chain' l r. infix_chain chain' \<and> chain' \<noteq> [] \<and> length chain' \<le> length chain
           \<and> table (token_value (hd chain')) = Some (l, r) \<and> l < min_bp
           \<and> parse_loop min_bp lhs (rev (chain @ bad # rest))
               = Inr (lhs', rev (chain' @ bad # rest)))"
proof (induction "length chain" arbitrary: chain min_bp lhs rule: less_induct)
  case less
  show ?case
  proof (cases chain rule: infix_chain.cases)
    case 1
    with bad show ?thesis
      using loop_unsupported [of bad min_bp lhs rest] by simp
  next
    case (2 t)
    with less.prems show ?thesis by simp
  next
    case (3 op a ts)
    with less.prems have op: "token_type op = OP" and a: "token_type a = ATOM"
      and ts: "infix_chain ts" and "token_value op \<in> dom table"
      by simp_all
    then obtain l r where tb: "table (token_value op) = Some (l, r)"
      by (auto simp: domIff)
    show ?thesis
    proof (cases "l < min_bp")
      case True
      have "parse_loop min_bp lhs (rev (chain @ bad # rest))
              = Inr (lhs, rev (chain @ bad # rest))"
        unfolding 3 using loop_stop [OF op tb True, of lhs "a # ts @ bad # rest"] by simp
      with less.prems tb True 3
      have "infix_chain chain \<and> chain \<noteq> [] \<and> length chain \<le> length chain
          \<and> table (token_value (hd chain)) = Some (l, r) \<and> l < min_bp
          \<and> parse_loop min_bp lhs (rev (chain @ bad # rest))
              = Inr (lhs, rev (chain @ bad # rest))"
        by simp
      then show ?thesis by blast
    next
      case False
      have step: "parse_loop min_bp lhs (rev (chain @ bad # rest)) =
          (case parse_loop r (Some (Atom a)) (rev (ts @ bad # rest)) of
             Inl e \<Rightarrow> Inl e
           | Inr (rhs, ts2) \<Rightarrow> parse_loop min_bp (Some (Operation op [lhs, rhs])) ts2)"
        unfolding 3
        using loop_step [OF op tb False, of lhs "a # ts @ bad # rest"]
          parse_expression_atom [OF a, of r "ts @ bad # rest"]
        by simp
      have lts: "length ts < length chain" using 3 by simp
      from less.hyps [OF lts ts, of r "Some (Atom a)"]
      show ?thesis
      proof
        assume "parse_loop r (Some (Atom a)) (rev (ts @ bad # rest))
                  = Inl (KeyError (token_value bad))"
        with step show ?thesis by simp
      next
        assume "\<exists>lhs' chain' l r'. infix_chain chain' \<and> chain' \<noteq> []
           \<and> length chain' \<le> length ts
           \<and> table (token_value (hd chain')) = Some (l, r') \<and> l < r
           \<and> parse_loop r (Some (Atom a)) (rev (ts @ bad # rest))
               = Inr (lhs', rev (chain' @ bad # rest))"
        then obtain rhs chain' where c': "infix_chain chain'" "length chain' \<le> length ts"
          and inner: "parse_loop r (Some (Atom a)) (rev (ts @ bad # rest))
               = Inr (rhs, rev (chain' @ bad # rest))"
          by blast
        from step inner
        have outer: "parse_loop min_bp lhs (rev (chain @ bad # rest)) =
            parse_loop min_bp (Some (Operation op [lhs, rhs])) (rev (chain' @ bad # rest))"
          by simp
        have lc: "length chain' < length chain" using c'(2) lts by simp
        from less.hyps [OF lc c'(1), of min_bp "Some (Operation op [lhs, rhs])"]
        show ?thesis
        proof
          assume "parse_loop min_bp (Some (Operation op [lhs, rhs])) (rev (chain' @ bad # rest))
                    = Inl (KeyError (token_value bad))"
          with outer show ?thesis by simp
        next
          assume "\<exists>lhs' chain'' l r'. infix_chain chain'' \<and> chain'' \<noteq> []
             \<and> length chain'' \<le> length chain'
             \<and> table (token_value (hd chain'')) = Some (l, r') \<and> l < min_bp
             \<and> parse_loop min_bp (Some (Operation op [lhs, rhs])) (rev (chain' @ bad # rest))
                 = Inr (lhs', rev (chain'' @ bad # rest))"
          then obtain lhs' chain'' l' r' where
            "infix_chain chain''" "chain'' \<noteq> []" "length chain'' \<le> length chain'"
            "table (token_value (hd chain'')) = Some (l', r')" "l' < min_bp"
            "parse_loop min_bp (Some (Operation op [lhs, rhs])) (rev (chain' @ bad # rest))
                 = Inr (lhs', rev (chain'' @ bad # rest))"
            by blast
          with outer lc
          have "infix_chain chain'' \<and> chain'' \<noteq> [] \<and> length chain'' \<le> length chain
              \<and> table (token_value (hd chain'')) = Some (l', r') \<and> l' < min_bp
              \<and> parse_loop min_bp lhs (rev (chain @ bad # rest))
                  = Inr (lhs', rev (chain'' @ bad # rest))"
            by simp
          then show ?thesis by blast
        qed
      qed
    qed
  qed
qed

text \<open>
  Claim C2, on the input \<^verbatim>\<open>1 and 2\<close>: \<^verbatim>\<open>and\<close> is an operator token in infix
  position and is not in the binding-power table. The lookup is not guarded, and the
  parse ends with its raw \<^verbatim>\<open>KeyError\<close> instead of an error of the parser's own, such
  as the \<^verbatim>\<open>SyntaxError\<close> that the neighbouring branches raise.
\<close>

theorem unsupported_operator_raw_KeyError:
  "rev (Parser ''1 and 2'') =
     [\<lparr>token_type = ATOM, token_value = ''1''\<rparr>,
      \<lparr>token_type = OP, token_value = ''and''\<rparr>,
      \<lparr>token_type = ATOM, token_value = ''2''\<rparr>,
      \<lparr>token_type = EOF, token_value = ''EOF''\<rparr>]
   \<and> parse_expression 0 (Parser ''1 and 2'') = Inl (KeyError ''and'')"
  by (simp add: lexer_defs parser_defs)

text \<open>
  The same crash in general: when the tokens are an atom, then an alternation of
  operators of the table and atoms, then an operator token that the table lacks, the
  lookup fails with \<^verbatim>\<open>KeyError\<close> for every minimum binding power up to 10, whatever
  follows the operator.
\<close>

lemma unsupported_operator_lookup_fails:
  assumes "token_type a = ATOM" and "infix_chain chain"
    and "token_type bad = OP" and "token_value bad \<notin> dom table" and "min_bp \<le> 10"
  shows "parse_expression min_bp (rev (a # chain @ bad # rest)) = Inl (KeyError (token_value bad))"
proof -
  have "parse_expression min_bp (rev (a # chain @ bad # rest))
          = parse_loop min_bp (Some (Atom a)) (rev (chain @ bad # rest))"
    using parse_expression_atom [OF assms(1), of min_bp "chain @ bad # rest"] by simp
  moreover have "parse_loop min_bp (Some (Atom a)) (rev (chain @ bad # rest))
          = Inl (KeyError (token_value bad))"
    using chain_loop [OF assms(3,4,2), of min_bp "Some (Atom a)" rest] assms(5)
    by (auto dest: table_left_bp)
  ultimately show ?thesis by simp
qed

text \<open>For instance on the input \<^verbatim>\<open>1 + 2 and 3\<close>.\<close>

lemma unsupported_operator_lookup_fails_example:
  "Parser ''1 + 2 and 3'' = rev (\<lparr>token_type = ATOM, token_value = ''1''\<rparr>
      # [\<lparr>token_type = OP, token_value = ''+''\<rparr>, \<lparr>token_type = ATOM, token_value = ''2''\<rparr>]
      @ \<lparr>token_type = OP, token_value = ''and''\<rparr>
      # [\<lparr>token_type = ATOM, token_value = ''3''\<rparr>, \<lparr>token_type = EOF, token_value = ''EOF''\<rparr>])
   \<and> infix_chain [\<lparr>token_type = OP, token_value = ''+''\<rparr>, \<lparr>token_type = ATOM, token_value = ''2''\<rparr>]
   \<and> ''and'' \<notin> dom table
   \<and> parse_expression 0 (Parser ''1 + 2 and 3'') = Inl (KeyError ''and'')"
  using unsupported_operator_lookup_fails [of "\<lparr>token_type = ATOM, token_value = ''1''\<rparr>"
      "[\<lparr>token_type = OP, token_value = ''+''\<rparr>, \<lparr>token_type = ATOM, token_value = ''2''\<rparr>]"
      "\<lparr>token_type = OP, token_value = ''and''\<rparr>" 0
      "[\<lparr>token_type = ATOM, token_value = ''3''\<rparr>, \<lparr>token_type = EOF, token_value = ''EOF''\<rparr>]"]
  by (simp add: lexer_defs table_def)

text \<open>On \<^verbatim>\<open>1 % 2\<close> the scanner drops \<^verbatim>\<open>%\<close>, so the parser sees two adjacent atoms
  and never reaches the lookup.\<close>

lemma percent_dropped_before_parsing:
  "rev (Parser ''1 % 2'') =
     [\<lparr>token_type = ATOM, token_value = ''1''\<rparr>,
      \<lparr>token_type = ATOM, token_value = ''2''\<rparr>,
      \<lparr>token_type = EOF, token_value = ''EOF''\<rparr>]
   \<and> parse_expression 0 (Parser ''1 % 2'')
       = Inl (SyntaxError ''Expect an operation, not an atom'')"
  by (simp add: lexer_defs parser_defs)

text \<open>
  Claim C10: \<open>parse_expression\<close> terminates on every token list and every minimum
  binding power: each argument is in the accessible part of the relation of the
  recursive calls, and a call that returns has consumed at least one token.
\<close>

theorem parse_expression_terminates:
  "parse_expression_parse_loop_dom (Inl (min_bp, tokens))
   \<and> (case parse_expression min_bp tokens of
         Inl e \<Rightarrow> True
       | Inr (r, rest) \<Rightarrow> length rest < length tokens)"
  using parse_dom_total parse_length(1) [of min_bp tokens]
  by (auto split: sum.splits)

end
